theory Spec2Isabelle
  imports Main
begin

section \<open>The Google cluster provider: components/clusterprovider/google/google.ts\<close>

text \<open>
  Every operation of the module formats a command line, hands it to the shell of its
  Context and shapes the reply. The module keeps no state of its own: what it does to the
  outside is the sequence of shell invocations and timer pauses it issues. The embedding
  threads that sequence through every asynchronous function of the source: such a function
  takes the events issued so far and returns its value together with the extended sequence.
\<close>

subsection \<open>Collaborators: the shell and the timer\<close>

text \<open>
  Modelled from the spec: the type ShellResult is declared in shell.ts, which is not among
  the sources. The spec gives the reply of a subprocess as exit code, standard output and
  standard error; the source reads the fields \<open>code\<close> and \<open>stderr\<close>.
\<close>

record ShellResult =
  code :: int
  stdout :: string
  stderr :: string

text \<open>
  What the module does to the outside, in the order it does it: \<open>Exec cmd\<close> is one call of
  \<open>context.shell.exec(cmd)\<close>, \<open>Sleep ms\<close> one timer pause of \<open>ms\<close> milliseconds.
\<close>

datatype event = Exec string | Sleep nat

type_synonym world = "event list"

fun is_Exec :: "event \<Rightarrow> bool" where
  "is_Exec (Exec cmd) = True"
| "is_Exec (Sleep ms) = False"

definition invocations :: "world \<Rightarrow> nat" where
  "invocations w = length (filter is_Exec w)"

definition pauses :: "world \<Rightarrow> nat list" where
  "pauses w = concat (map (\<lambda>e. case e of Exec cmd \<Rightarrow> [] | Sleep ms \<Rightarrow> [ms]) w)"

text \<open>
  The shell is a collaborator whose replies the module cannot predict, and the same command
  may be answered differently from one call to the next (the retry loop of
  \<open>getCredentials\<close> relies on it). \<open>exec sh n cmd\<close> is the reply to the call number \<open>n\<close>
  (counted from 0 over the whole run) when that call carries the command line \<open>cmd\<close>;
  \<open>None\<close> is the absent result that the source tests for with \<open>sr && ...\<close>.
\<close>

record Shell =
  isUnix :: bool
  exec :: "nat \<Rightarrow> string \<Rightarrow> ShellResult option"

type_synonym FS = unit

record Context =
  fs :: FS
  shell :: Shell

definition shell_exec :: "Context \<Rightarrow> string \<Rightarrow> world \<Rightarrow> ShellResult option \<times> world" where
  "shell_exec context cmd w = (exec (shell context) (invocations w) cmd, w @ [Exec cmd])"

text \<open>
  Modelled from the spec: \<open>sleep\<close> is imported from sleep.ts, which is not among the
  sources; the spec describes it as a pause of the given length.
\<close>

definition sleep :: "nat \<Rightarrow> world \<Rightarrow> world" where
  "sleep ms w = w @ [Sleep ms]"

text \<open>The module's own \<open>wait\<close> resolves after \<open>setTimeout(resolve, ms)\<close>.\<close>

definition wait :: "nat \<Rightarrow> world \<Rightarrow> world" where
  "wait ms w = w @ [Sleep ms]"

subsection \<open>Result shapes\<close>

text \<open>
  The objects the module returns carry a flag \<open>succeeded\<close> and the optional fields
  \<open>result\<close> and \<open>error\<close>; a field that an object literal of the source leaves out is
  \<open>None\<close>. One record covers the three uses in the source: Errorable values (the error is
  an array of strings, as the literal \<open>error: []\<close> of \<open>configureCluster\<close> requires),
  the untyped object of \<open>getCredentials\<close> (the error is a string, no result), and the
  object of \<open>configureCluster\<close> that sets all three fields.
\<close>

record ('a, 'e) Outcome =
  succeeded :: bool
  result :: "'a option"
  error :: "'e option"

type_synonym 'a Errorable = "('a, string list) Outcome"

text \<open>The field \<open>result\<close> of an ActionResult is named \<open>actionResult\<close> here.\<close>

record 'a ActionResult =
  actionDescription :: string
  actionResult :: "'a Errorable"

text \<open>
  Modelled from the spec: \<open>failed\<close> is imported from errorable.ts, which is not among the
  sources. The spec has callers branch on the success flag.
\<close>

definition failed :: "('a, 'e) Outcome \<Rightarrow> bool" where
  "failed e = (\<not> succeeded e)"

text \<open>
  Modelled from the spec: Diagnostic is declared in wizard.ts, which is not among the
  sources. The spec calls it a diagnostic-only success value without payload.
\<close>

datatype Diagnostic = Diagnostic

text \<open>
  Modelled from the spec: \<open>fromShellExitCodeAndStandardError\<close> is imported from wizard.ts,
  which is not among the sources. The spec: success is determined by zero exit code and
  empty standard error; a failing subprocess is surfaced as a failure with the fixed
  descriptive text and the raw standard error; a subprocess that could not be invoked
  has no standard error to report.
\<close>

definition fromShellExitCodeAndStandardError ::
    "ShellResult option \<Rightarrow> string \<Rightarrow> Diagnostic Errorable" where
  "fromShellExitCodeAndStandardError sr invocationFailureMessage =
     (case sr of
        None \<Rightarrow> \<lparr>succeeded = False, result = None, error = Some [invocationFailureMessage]\<rparr>
      | Some r \<Rightarrow>
          if code r = 0 \<and> stderr r = []
          then \<lparr>succeeded = True, result = Some Diagnostic, error = None\<rparr>
          else \<lparr>succeeded = False, result = None,
                 error = Some [invocationFailureMessage, stderr r]\<rparr>)"

text \<open>
  Modelled from the spec: \<open>fromShellExitCodeOnly\<close> is imported from wizard.ts, which is
  not among the sources. The spec: success is determined by exit code alone, standard
  error is not inspected.
\<close>

definition fromShellExitCodeOnly ::
    "ShellResult option \<Rightarrow> string \<Rightarrow> Diagnostic Errorable" where
  "fromShellExitCodeOnly sr invocationFailureMessage =
     (case sr of
        None \<Rightarrow> \<lparr>succeeded = False, result = None, error = Some [invocationFailureMessage]\<rparr>
      | Some r \<Rightarrow>
          if code r = 0
          then \<lparr>succeeded = True, result = Some Diagnostic, error = None\<rparr>
          else \<lparr>succeeded = False, result = None,
                 error = Some [invocationFailureMessage, stderr r]\<rparr>)"

subsection \<open>JSON values and the language's built-in operations\<close>

text \<open>
  The values \<open>JSON.parse\<close> produces. Numbers are IEEE doubles, about which nothing is
  assumed; an object is the list of its own properties.
\<close>

typedecl js_number

datatype json =
    JNull
  | JBool bool
  | JNumber js_number
  | JString string
  | JArray "json list"
  | JObject "(string \<times> json) list"

text \<open>
  The built-in operations are taken as they are: \<open>JSON_parse js s\<close> is the value of
  \<open>JSON.parse(s)\<close>, \<open>None\<close> when it throws a SyntaxError; \<open>Number_toString js n\<close> is the
  decimal rendering of a number.
\<close>

record JsRuntime =
  JSON_parse :: "string \<Rightarrow> json option"
  Number_toString :: "js_number \<Rightarrow> string"

fun join :: "string \<Rightarrow> string list \<Rightarrow> string" where
  "join sep [] = []"
| "join sep [x] = x"
| "join sep (x # y # ys) = x @ sep @ join sep (y # ys)"

text \<open>The string conversion of a value, as applied to a computed property key.\<close>

fun ToString :: "JsRuntime \<Rightarrow> json \<Rightarrow> string" where
  "ToString js JNull = ''null''"
| "ToString js (JBool b) = (if b then ''true'' else ''false'')"
| "ToString js (JNumber n) = Number_toString js n"
| "ToString js (JString s) = s"
| "ToString js (JArray xs) =
     join '','' (map (\<lambda>x. case x of JNull \<Rightarrow> [] | _ \<Rightarrow> ToString js x) xs)"
| "ToString js (JObject props) = ''[object Object]''"

text \<open>A value that may be \<open>undefined\<close> is a \<open>json option\<close>, \<open>None\<close> being \<open>undefined\<close>.\<close>

definition PropertyKey :: "JsRuntime \<Rightarrow> json option \<Rightarrow> string" where
  "PropertyKey js v = (case v of None \<Rightarrow> ''undefined'' | Some x \<Rightarrow> ToString js x)"

text \<open>
  Reading the property \<open>k\<close> of a value, for the two names this module reads (\<open>name\<close> and
  \<open>displayName\<close>, which no built-in prototype defines): the outer \<open>None\<close> is the TypeError
  of reading a property of \<open>null\<close>, \<open>Some None\<close> the value \<open>undefined\<close>.
\<close>

fun getProperty :: "json \<Rightarrow> string \<Rightarrow> json option option" where
  "getProperty JNull k = None"
| "getProperty (JObject props) k = Some (map_of props k)"
| "getProperty (JBool b) k = Some None"
| "getProperty (JNumber n) k = Some None"
| "getProperty (JString s) k = Some None"
| "getProperty (JArray xs) k = Some None"

text \<open>
  The values a \<open>for (const r of response)\<close> loop visits: the elements of an array, the
  characters of a string; any other JSON value is not iterable (\<open>None\<close>: TypeError).
\<close>

fun iterate :: "json \<Rightarrow> json list option" where
  "iterate (JArray xs) = Some xs"
| "iterate (JString s) = Some (map (\<lambda>c. JString [c]) s)"
| "iterate JNull = None"
| "iterate (JBool b) = None"
| "iterate (JNumber n) = None"
| "iterate (JObject props) = None"

definition startsWith :: "string \<Rightarrow> string \<Rightarrow> bool" where
  "startsWith s p = (take (length p) s = p)"

text \<open>
  Modelled from the spec: \<open>fromShellJson\<close> is imported from wizard.ts, which is not among
  the sources. The spec: a value derived from a subprocess is valid only if the exit code
  is zero (and, where specified, standard error is empty, which the spec specifies for
  setProject only); otherwise it is replaced by a failure with the fixed descriptive text
  and the raw standard error. Output that cannot be parsed as the expected JSON is
  surfaced as a failure with the fixed descriptive text, the detail swallowed. The
  optional third argument turns the parsed value into the result; a processor that throws
  is \<open>None\<close> here, and a call of the source without processor passes \<open>Some\<close>.
\<close>

definition fromShellJson ::
    "JsRuntime \<Rightarrow> ShellResult option \<Rightarrow> string \<Rightarrow> (json \<Rightarrow> 'a option) \<Rightarrow> 'a Errorable" where
  "fromShellJson js sr invocationFailureMessage processor =
     (case sr of
        None \<Rightarrow> \<lparr>succeeded = False, result = None, error = Some [invocationFailureMessage]\<rparr>
      | Some r \<Rightarrow>
          if code r = 0
          then (case JSON_parse js (stdout r) of
                  None \<Rightarrow>
                    \<lparr>succeeded = False, result = None, error = Some [invocationFailureMessage]\<rparr>
                | Some raw \<Rightarrow>
                    (case processor raw of
                       None \<Rightarrow>
                         \<lparr>succeeded = False, result = None,
                           error = Some [invocationFailureMessage]\<rparr>
                     | Some v \<Rightarrow> \<lparr>succeeded = True, result = Some v, error = None\<rparr>))
          else \<lparr>succeeded = False, result = None,
                 error = Some [invocationFailureMessage, stderr r]\<rparr>)"

subsection \<open>The data of the module\<close>

text \<open>
  The display name of a ServiceLocation is declared a string; at run time it is whatever
  the lookup in the region mapping gives, \<open>undefined\<close> included.
\<close>

record ServiceLocation =
  displayName :: "json option"
  isPreview :: bool

text \<open>
  Modelled from the spec: \<open>Dictionary.of\<close> is imported from utils/dictionary.ts, which is
  not among the sources; the spec describes the dictionary as a mapping from region name
  to display name. Looking up a key without entry gives \<open>undefined\<close>.
\<close>

type_synonym Dictionary = "string \<Rightarrow> json option"

definition Dictionary_of :: Dictionary where
  "Dictionary_of = (\<lambda>k. None)"

record Locations =
  locations :: Dictionary

record ConfigureResult =
  clusterType :: string
  gotCli :: "bool option"
  cliInstallFile :: "string option"
  cliOnDefaultPath :: "bool option"
  cliError :: "string option"
  gotCredentials :: bool
  credentialsError :: "string option"

record WaitResult =
  stillWaiting :: "bool option"

text \<open>
  The \<open>options\<close> of \<open>createCluster\<close> are untyped in the source; these are the fields it
  reads: \<open>options.project\<close>, \<open>options.metadata.clusterName\<close>, \<open>options.metadata.location\<close>.
\<close>

record Metadata =
  metadata_clusterName :: string
  metadata_location :: string

record Options =
  options_project :: string
  options_metadata :: Metadata

datatype exception = TypeError

subsection \<open>Projects and clusters\<close>

definition listProjectsAsync :: "JsRuntime \<Rightarrow> Context \<Rightarrow> world \<Rightarrow> json Errorable \<times> world" where
  "listProjectsAsync js context w =
     (case shell_exec context ''gcloud projects list'' w of
        (sr, w1) \<Rightarrow> (fromShellJson js sr ''Unable to list Google projects'' Some, w1))"

definition getProjectList :: "JsRuntime \<Rightarrow> Context \<Rightarrow> world \<Rightarrow> json ActionResult \<times> world" where
  "getProjectList js context w =
     (case listProjectsAsync js context w of
        (projects, w1) \<Rightarrow>
          (\<lparr>actionDescription = ''listing projects'', actionResult = projects\<rparr>, w1))"

definition setProjectAsync :: "Context \<Rightarrow> string \<Rightarrow> world \<Rightarrow> Diagnostic Errorable \<times> world" where
  \<open>setProjectAsync context project w =
     (case shell_exec context (''gcloud config set project "'' @ project @ ''"'') w of
        (sr, w1) \<Rightarrow>
          (fromShellExitCodeAndStandardError sr ''Unable to set gcloud CLI project'', w1))\<close>

definition listClustersAsync :: "JsRuntime \<Rightarrow> Context \<Rightarrow> world \<Rightarrow> json Errorable \<times> world" where
  "listClustersAsync js context w =
     (case shell_exec context ''gcloud container clusters list'' w of
        (sr, w1) \<Rightarrow> (fromShellJson js sr ''Unable to list Kubernetes clusters'' Some, w1))"

definition getClusterList ::
    "JsRuntime \<Rightarrow> Context \<Rightarrow> string \<Rightarrow> world \<Rightarrow> json ActionResult \<times> world" where
  "getClusterList js context project w =
     (case setProjectAsync context project w of
        (login, w1) \<Rightarrow>
          if failed login
          then (\<lparr>actionDescription = ''logging into project'',
                  actionResult = \<lparr>succeeded = False, result = None, error = error login\<rparr>\<rparr>, w1)
          else (case listClustersAsync js context w1 of
                  (clusters, w2) \<Rightarrow>
                    (\<lparr>actionDescription = ''listing clusters'', actionResult = clusters\<rparr>, w2)))"

subsection \<open>Locations\<close>

text \<open>
  The loop body \<open>locations[r.name] = r.displayName\<close> over the values the loop visits; a
  TypeError on the way ends the callback without a value.
\<close>

fun assignLocations :: "JsRuntime \<Rightarrow> json list \<Rightarrow> Dictionary \<Rightarrow> Dictionary option" where
  "assignLocations js [] dict = Some dict"
| "assignLocations js (r # rs) dict =
     (case getProperty r ''name'' of
        None \<Rightarrow> None
      | Some name \<Rightarrow>
          (case getProperty r ''displayName'' of
             None \<Rightarrow> None
           | Some display \<Rightarrow> assignLocations js rs (dict(PropertyKey js name := display))))"

text \<open>The callback that \<open>listLocations\<close> passes to \<open>fromShellJson\<close>.\<close>

definition listLocations_processor :: "JsRuntime \<Rightarrow> json \<Rightarrow> Locations option" where
  "listLocations_processor js response =
     (case iterate response of
        None \<Rightarrow> None
      | Some rs \<Rightarrow>
          (case assignLocations js rs Dictionary_of of
             None \<Rightarrow> None
           | Some dict \<Rightarrow> Some \<lparr>locations = dict\<rparr>))"

definition listLocations :: "JsRuntime \<Rightarrow> Context \<Rightarrow> world \<Rightarrow> Locations Errorable \<times> world" where
  "listLocations js context w =
     (let query = ''[].{name:name,displayName:displayName}'';
          query = (if isUnix (shell context) then [CHR 0x27] @ query @ [CHR 0x27] else query)
      in case shell_exec context (''az account list-locations --query '' @ query @ '' -ojson'') w of
           (sr, w1) \<Rightarrow>
             (fromShellJson js sr ''Unable to list Google regions'' (listLocations_processor js),
              w1))"

definition locationDisplayNames ::
    "string list \<Rightarrow> bool \<Rightarrow> Locations \<Rightarrow> ServiceLocation list" where
  "locationDisplayNames names preview locationInfo =
     map (\<lambda>n. \<lparr>displayName = locations locationInfo n, isPreview = preview\<rparr>) names"

definition locationDisplayNamesEx ::
    "string list \<Rightarrow> string list \<Rightarrow> Locations \<Rightarrow> ServiceLocation list" where
  "locationDisplayNamesEx production preview locationInfo =
     locationDisplayNames production False locationInfo
       @ locationDisplayNames preview True locationInfo"

definition productionRegions :: "string list" where
  "productionRegions =
     [''australiaeast'',
      ''australiasoutheast'',
      ''canadacentral'',
      ''canadaeast'',
      ''centralindia'',
      ''centralus'',
      ''eastasia'',
      ''eastus'',
      ''eastus2'',
      ''francecentral'',
      ''japaneast'',
      ''northeurope'',
      ''southeastasia'',
      ''southindia'',
      ''uksouth'',
      ''ukwest'',
      ''westeurope'',
      ''westus'',
      ''westus2'']"

text \<open>
  A value that has \<open>succeeded\<close> set and no \<open>result\<close> would make the lookups of
  \<open>locationDisplayNames\<close> read a property of \<open>undefined\<close>: the TypeError is the \<open>Inl\<close>
  branch.
\<close>

definition listGkeLocations ::
    "JsRuntime \<Rightarrow> Context \<Rightarrow> world \<Rightarrow> (exception + ServiceLocation list Errorable) \<times> world" where
  "listGkeLocations js context w =
     (case listLocations js context w of
        (locationInfo, w1) \<Rightarrow>
          if failed locationInfo
          then (Inr \<lparr>succeeded = False, result = None, error = error locationInfo\<rparr>, w1)
          else (case result locationInfo of
                  None \<Rightarrow> (Inl TypeError, w1)
                | Some locs \<Rightarrow>
                    (Inr \<lparr>succeeded = True,
                          result = Some (locationDisplayNamesEx productionRegions [] locs),
                          error = None\<rparr>, w1)))"

subsection \<open>VM sizes\<close>

text \<open>
  The receiver of \<open>name.startsWith\<close>: anything but a string has no such method
  (\<open>None\<close>: TypeError).
\<close>

fun asString :: "json option \<Rightarrow> string option" where
  "asString (Some (JString s)) = Some s"
| "asString v = None"

text \<open>
  The callback that \<open>listVMSizes\<close> passes to \<open>fromShellJson\<close>:
  \<open>response.map((r) => r.name).filter((name) => !name.startsWith('Basic_'))\<close>. Only an
  array has \<open>map\<close>.
\<close>

definition listVMSizes_processor :: "json \<Rightarrow> string list option" where
  "listVMSizes_processor response =
     (case response of
        JArray rs \<Rightarrow>
          (case those (map (\<lambda>r. getProperty r ''name'') rs) of
             None \<Rightarrow> None
           | Some names \<Rightarrow>
               (case those (map asString names) of
                  None \<Rightarrow> None
                | Some strings \<Rightarrow>
                    Some (filter (\<lambda>name. \<not> startsWith name ''Basic_'') strings)))
      | _ \<Rightarrow> None)"

definition listVMSizes ::
    "JsRuntime \<Rightarrow> Context \<Rightarrow> string \<Rightarrow> world \<Rightarrow> string list Errorable \<times> world" where
  \<open>listVMSizes js context location w =
     (case shell_exec context (''az vm list-sizes -l "'' @ location @ ''" -ojson'') w of
        (sr, w1) \<Rightarrow> (fromShellJson js sr ''Unable to list VM sizes'' listVMSizes_processor, w1))\<close>

subsection \<open>Creating, awaiting and configuring a cluster\<close>

definition execCreateClusterCmd ::
    "Context \<Rightarrow> Options \<Rightarrow> world \<Rightarrow> Diagnostic Errorable \<times> world" where
  \<open>execCreateClusterCmd context options w =
     (let createCmd = ''gcloud container clusters create "''
            @ metadata_clusterName (options_metadata options)
            @ ''" --zone "'' @ metadata_location (options_metadata options) @ ''" --async ''
      in case shell_exec context createCmd w of
           (sr, w1) \<Rightarrow>
             (fromShellExitCodeOnly sr ''Unable to call Gcloud CLI to create cluster'', w1))\<close>

definition createCluster ::
    "Context \<Rightarrow> Options \<Rightarrow> world \<Rightarrow> Diagnostic ActionResult \<times> world" where
  "createCluster context options w =
     (case setProjectAsync context (options_project options) w of
        (login, w1) \<Rightarrow>
          if \<not> succeeded login
          then (\<lparr>actionDescription = ''logging into project'', actionResult = login\<rparr>, w1)
          else (case execCreateClusterCmd context options w1 of
                  (created, w2) \<Rightarrow>
                    (\<lparr>actionDescription = ''creating cluster'', actionResult = created\<rparr>, w2)))"

definition waitForCluster ::
    "Context \<Rightarrow> string \<Rightarrow> world \<Rightarrow> WaitResult Errorable \<times> world" where
  "waitForCluster context clusterName w =
     (\<lparr>succeeded = True, result = Some \<lparr>stillWaiting = Some False\<rparr>, error = None\<rparr>,
      wait (300 * 1000) w)"

text \<open>
  The retry loop of \<open>getCredentials\<close>: \<open>attempts\<close> is the counter on entry of an
  iteration. The counter and the bound are integers.
\<close>

function getCredentials_loop ::
    "Context \<Rightarrow> string \<Rightarrow> int \<Rightarrow> int \<Rightarrow> world \<Rightarrow> (unit, string) Outcome \<times> world" where
  "getCredentials_loop context clusterName maxAttempts attempts w =
     (let attempts = attempts + 1;
          cmd = ''gcloud container clusters get-credentials '' @ clusterName
      in case shell_exec context cmd w of
           (sr, w1) \<Rightarrow>
             if (case sr of None \<Rightarrow> False | Some r \<Rightarrow> code r = 0 \<and> stderr r = [])
             then (\<lparr>succeeded = True, result = None, error = None\<rparr>, w1)
             else if attempts < maxAttempts
             then getCredentials_loop context clusterName maxAttempts attempts (sleep 15000 w1)
             else (\<lparr>succeeded = False, result = None,
                     error = Some (case sr of
                                     Some r \<Rightarrow> stderr r
                                   | None \<Rightarrow> ''Unable to invoke gcloud CLI'')\<rparr>, w1))"
  by pat_completeness auto
termination
  by (relation "measure (\<lambda>(context, clusterName, maxAttempts, attempts, w).
        nat (maxAttempts - attempts))") auto

declare getCredentials_loop.simps [simp del]

definition getCredentials ::
    "Context \<Rightarrow> string \<Rightarrow> int \<Rightarrow> world \<Rightarrow> (unit, string) Outcome \<times> world" where
  "getCredentials context clusterName maxAttempts w =
     getCredentials_loop context clusterName maxAttempts 0 w"

definition configureCluster ::
    "Context \<Rightarrow> string \<Rightarrow> string \<Rightarrow> world \<Rightarrow> ConfigureResult ActionResult \<times> world" where
  "configureCluster context clusterType' clusterName w =
     (case getCredentials context clusterName 5 w of
        (credsResult, w1) \<Rightarrow>
          (let configured = \<lparr>clusterType = clusterType',
                             gotCli = None, cliInstallFile = None, cliOnDefaultPath = None,
                             cliError = None,
                             gotCredentials = succeeded credsResult,
                             credentialsError = error credsResult\<rparr>
           in (\<lparr>actionDescription = ''configuring Kubernetes'',
                 actionResult = \<lparr>succeeded = succeeded credsResult,
                                  result = Some configured,
                                  error = Some []\<rparr>\<rparr>, w1)))"

section \<open>Notions used by the statements\<close>

text \<open>
  The test of the retry loop on a reply of the shell, \<open>sr && sr.code === 0 && !sr.stderr\<close>:
  the reply is present, its exit code is zero and its standard error is empty.
\<close>

definition fetched :: "ShellResult option \<Rightarrow> bool" where
  "fetched sr = (case sr of None \<Rightarrow> False | Some r \<Rightarrow> code r = 0 \<and> stderr r = [])"

text \<open>The command line of one attempt of \<open>getCredentials\<close>.\<close>

definition getCredentials_cmd :: "string \<Rightarrow> string" where
  "getCredentials_cmd clusterName = ''gcloud container clusters get-credentials '' @ clusterName"

text \<open>
  The reply to attempt number \<open>k\<close> (counted from 1) of a call of \<open>getCredentials\<close> that
  starts after the events \<open>w\<close>: the shell has been called \<open>invocations w\<close> times before.
\<close>

definition attempt :: "Context \<Rightarrow> string \<Rightarrow> world \<Rightarrow> nat \<Rightarrow> ShellResult option" where
  "attempt context clusterName w k =
     exec (shell context) (invocations w + (k - 1)) (getCredentials_cmd clusterName)"

text \<open>
  The events of \<open>k\<close> attempts: each attempt but the last is followed by a pause of 15000
  milliseconds.
\<close>

definition retry_events :: "string \<Rightarrow> nat \<Rightarrow> event list" where
  "retry_events cmd k = concat (replicate (k - 1) [Exec cmd, Sleep 15000]) @ [Exec cmd]"

text \<open>The command lines of \<open>setProjectAsync\<close>, \<open>execCreateClusterCmd\<close> and \<open>listVMSizes\<close>.\<close>

definition setProject_cmd :: "string \<Rightarrow> string" where
  \<open>setProject_cmd project = ''gcloud config set project "'' @ project @ ''"''\<close>

definition createCluster_cmd :: "Options \<Rightarrow> string" where
  \<open>createCluster_cmd options =
     ''gcloud container clusters create "'' @ metadata_clusterName (options_metadata options)
       @ ''" --zone "'' @ metadata_location (options_metadata options) @ ''" --async ''\<close>

definition listVMSizes_cmd :: "string \<Rightarrow> string" where
  \<open>listVMSizes_cmd location = ''az vm list-sizes -l "'' @ location @ ''" -ojson''\<close>

subsection \<open>Example shells\<close>

text \<open>
  A shell that answers its first four calls with exit code 1 and every later call with
  exit code 0 and empty standard error; a shell that fails every call; a shell that
  answers exit code 0 with a warning on standard error; and a shell that accepts its first
  call silently and answers every later call with exit code 0 and a warning.
\<close>

definition flaky_context :: Context where
  "flaky_context =
     \<lparr>fs = (),
      shell = \<lparr>isUnix = True,
               exec = (\<lambda>n cmd. if n < 4
                                then Some \<lparr>code = 1, stdout = [], stderr = ''ERROR: cluster is provisioning''\<rparr>
                                else Some \<lparr>code = 0, stdout = [], stderr = []\<rparr>)\<rparr>\<rparr>"

definition down_context :: Context where
  "down_context =
     \<lparr>fs = (),
      shell = \<lparr>isUnix = True,
               exec = (\<lambda>n cmd. Some \<lparr>code = 1, stdout = [], stderr = ''ERROR: not authorised''\<rparr>)\<rparr>\<rparr>"

definition warning_context :: Context where
  "warning_context =
     \<lparr>fs = (),
      shell = \<lparr>isUnix = False,
               exec = (\<lambda>n cmd. Some \<lparr>code = 0, stdout = [],
                                       stderr = ''WARNING: property validation skipped''\<rparr>)\<rparr>\<rparr>"

definition chatty_context :: Context where
  "chatty_context =
     \<lparr>fs = (),
      shell = \<lparr>isUnix = True,
               exec = (\<lambda>n cmd. if n = 0
                                then Some \<lparr>code = 0, stdout = [], stderr = []\<rparr>
                                else Some \<lparr>code = 0, stdout = [],
                                           stderr = ''WARNING: cluster creation is asynchronous''\<rparr>)\<rparr>\<rparr>"

definition demo_options :: Options where
  "demo_options =
     \<lparr>options_project = ''demo-project'',
      options_metadata = \<lparr>metadata_clusterName = ''demo'', metadata_location = ''us-east1-b''\<rparr>\<rparr>"

text \<open>
  Two outputs of the cloud CLI with the values \<open>JSON.parse\<close> gives for them, and the
  shells that print them.
\<close>

definition locations_json :: string where
  \<open>locations_json = ''[{"name":"eastus","displayName":"East US"}]''\<close>

definition sizes_json :: string where
  \<open>sizes_json = ''[{"name":"Standard_D2_v2"},{"name":"Basic_A0"},{"name":"Standard_A1"}]''\<close>

definition demo_runtime :: JsRuntime where
  "demo_runtime =
     \<lparr>JSON_parse =
        (\<lambda>s. if s = locations_json
             then Some (JArray [JObject [(''name'', JString ''eastus''),
                                         (''displayName'', JString ''East US'')]])
             else if s = sizes_json
             then Some (JArray [JObject [(''name'', JString ''Standard_D2_v2'')],
                                JObject [(''name'', JString ''Basic_A0'')],
                                JObject [(''name'', JString ''Standard_A1'')]])
             else None),
      Number_toString = (\<lambda>n. [])\<rparr>"

definition locations_context :: Context where
  "locations_context =
     \<lparr>fs = (),
      shell = \<lparr>isUnix = True,
               exec = (\<lambda>n cmd. Some \<lparr>code = 0, stdout = locations_json, stderr = []\<rparr>)\<rparr>\<rparr>"

definition sizes_context :: Context where
  "sizes_context =
     \<lparr>fs = (),
      shell = \<lparr>isUnix = True,
               exec = (\<lambda>n cmd. Some \<lparr>code = 0, stdout = sizes_json, stderr = []\<rparr>)\<rparr>\<rparr>"

section \<open>The retry loop\<close>

lemma invocations_append: "invocations (u @ v) = invocations u + invocations v"
  by (simp add: invocations_def)

lemma pauses_append: "pauses (u @ v) = pauses u @ pauses v"
  by (simp add: pauses_def)

lemma invocations_round: "invocations (concat (replicate n [Exec cmd, Sleep ms])) = n"
  by (induction n) (simp_all add: invocations_def)

lemma pauses_round: "pauses (concat (replicate n [Exec cmd, Sleep ms])) = replicate n ms"
  by (induction n) (simp_all add: pauses_def)

lemma loop_step_fetched:
  assumes "fetched (exec (shell context) (invocations w) (getCredentials_cmd clusterName))"
  shows "getCredentials_loop context clusterName maxAttempts attempts w =
           (\<lparr>succeeded = True, result = None, error = None\<rparr>,
            w @ [Exec (getCredentials_cmd clusterName)])"
  using assms
  by (subst getCredentials_loop.simps)
     (simp add: shell_exec_def fetched_def getCredentials_cmd_def Let_def split: option.splits)

lemma loop_step_retry:
  assumes "\<not> fetched (exec (shell context) (invocations w) (getCredentials_cmd clusterName))"
      and "attempts + 1 < maxAttempts"
  shows "getCredentials_loop context clusterName maxAttempts attempts w =
           getCredentials_loop context clusterName maxAttempts (attempts + 1)
             (w @ [Exec (getCredentials_cmd clusterName), Sleep 15000])"
  using assms
  by (subst getCredentials_loop.simps)
     (simp add: shell_exec_def fetched_def getCredentials_cmd_def Let_def sleep_def split: option.splits)

lemma loop_step_exhausted:
  assumes "\<not> fetched (exec (shell context) (invocations w) (getCredentials_cmd clusterName))"
      and "\<not> attempts + 1 < maxAttempts"
  shows "getCredentials_loop context clusterName maxAttempts attempts w =
           (\<lparr>succeeded = False, result = None,
              error = Some (case exec (shell context) (invocations w) (getCredentials_cmd clusterName) of
                              Some r \<Rightarrow> stderr r | None \<Rightarrow> ''Unable to invoke gcloud CLI'')\<rparr>,
            w @ [Exec (getCredentials_cmd clusterName)])"
  using assms
  by (subst getCredentials_loop.simps)
     (simp add: shell_exec_def fetched_def getCredentials_cmd_def Let_def split: option.splits)

lemma loop_fetched:
  assumes "\<forall>j<n. \<not> fetched (exec (shell context) (invocations w + j) (getCredentials_cmd clusterName))"
      and "fetched (exec (shell context) (invocations w + n) (getCredentials_cmd clusterName))"
      and "n = 0 \<or> attempts + int n < maxAttempts"
  shows "getCredentials_loop context clusterName maxAttempts attempts w =
           (\<lparr>succeeded = True, result = None, error = None\<rparr>,
            w @ concat (replicate n [Exec (getCredentials_cmd clusterName), Sleep 15000])
              @ [Exec (getCredentials_cmd clusterName)])"
  using assms
proof (induction n arbitrary: attempts w)
  case 0
  then show ?case by (simp add: loop_step_fetched)
next
  case (Suc n)
  let ?cmd = "getCredentials_cmd clusterName"
  let ?w = "w @ [Exec ?cmd, Sleep 15000]"
  have inv: "invocations ?w = Suc (invocations w)"
    by (simp add: invocations_def)
  have first: "\<not> fetched (exec (shell context) (invocations w) ?cmd)"
    using Suc.prems(1) by (metis add.right_neutral zero_less_Suc)
  have more: "attempts + 1 < maxAttempts"
    using Suc.prems(3) by simp
  have "getCredentials_loop context clusterName maxAttempts (attempts + 1) ?w =
          (\<lparr>succeeded = True, result = None, error = None\<rparr>,
           ?w @ concat (replicate n [Exec ?cmd, Sleep 15000]) @ [Exec ?cmd])"
  proof (rule Suc.IH)
    show "\<forall>j<n. \<not> fetched (exec (shell context) (invocations ?w + j) ?cmd)"
      using Suc.prems(1) by (simp add: inv) (metis Suc_less_eq add_Suc_right)
    show "fetched (exec (shell context) (invocations ?w + n) ?cmd)"
      using Suc.prems(2) by (simp add: inv)
    show "n = 0 \<or> attempts + 1 + int n < maxAttempts"
      using Suc.prems(3) by simp
  qed
  then show ?case
    by (simp add: loop_step_retry [OF first more])
qed

lemma loop_exhausted:
  assumes "\<forall>j\<le>n. \<not> fetched (exec (shell context) (invocations w + j) (getCredentials_cmd clusterName))"
      and "maxAttempts \<le> attempts + int n + 1"
      and "n = 0 \<or> attempts + int n < maxAttempts"
  shows "getCredentials_loop context clusterName maxAttempts attempts w =
           (\<lparr>succeeded = False, result = None,
              error = Some (case exec (shell context) (invocations w + n) (getCredentials_cmd clusterName) of
                              Some r \<Rightarrow> stderr r | None \<Rightarrow> ''Unable to invoke gcloud CLI'')\<rparr>,
            w @ concat (replicate n [Exec (getCredentials_cmd clusterName), Sleep 15000])
              @ [Exec (getCredentials_cmd clusterName)])"
  using assms
proof (induction n arbitrary: attempts w)
  case 0
  then show ?case by (simp add: loop_step_exhausted)
next
  case (Suc n)
  let ?cmd = "getCredentials_cmd clusterName"
  let ?w = "w @ [Exec ?cmd, Sleep 15000]"
  have inv: "invocations ?w = Suc (invocations w)"
    by (simp add: invocations_def)
  have first: "\<not> fetched (exec (shell context) (invocations w) ?cmd)"
    using Suc.prems(1) by (metis add.right_neutral le0)
  have more: "attempts + 1 < maxAttempts"
    using Suc.prems(3) by simp
  have "getCredentials_loop context clusterName maxAttempts (attempts + 1) ?w =
          (\<lparr>succeeded = False, result = None,
             error = Some (case exec (shell context) (invocations ?w + n) ?cmd of
                             Some r \<Rightarrow> stderr r | None \<Rightarrow> ''Unable to invoke gcloud CLI'')\<rparr>,
           ?w @ concat (replicate n [Exec ?cmd, Sleep 15000]) @ [Exec ?cmd])"
  proof (rule Suc.IH)
    show "\<forall>j\<le>n. \<not> fetched (exec (shell context) (invocations ?w + j) ?cmd)"
      using Suc.prems(1) by (simp add: inv) (metis Suc_le_mono add_Suc_right)
    show "maxAttempts \<le> attempts + 1 + int n + 1"
      using Suc.prems(2) by simp
    show "n = 0 \<or> attempts + 1 + int n < maxAttempts"
      using Suc.prems(3) by simp
  qed
  then show ?case
    by (simp add: loop_step_retry [OF first more] inv)
qed

text \<open>Whether the call succeeds is decided by the first five replies.\<close>

lemma getCredentials_succeeded_iff:
  "succeeded (fst (getCredentials context clusterName 5 w))
     \<longleftrightarrow> (\<exists>k. 1 \<le> k \<and> k \<le> 5 \<and> fetched (attempt context clusterName w k))"
proof (cases "\<exists>j<5. fetched (exec (shell context) (invocations w + j) (getCredentials_cmd clusterName))")
  case True
  let ?P = "\<lambda>j. fetched (exec (shell context) (invocations w + j) (getCredentials_cmd clusterName))"
  define n where "n = (LEAST j. ?P j)"
  from True obtain j where j: "j < 5" "?P j" by blast
  have here: "?P n"
    unfolding n_def using j(2) by (rule LeastI)
  have small: "n < 5"
    using Least_le [of ?P j, OF j(2)] j(1) by (simp add: n_def)
  have before: "\<forall>i<n. \<not> ?P i"
    unfolding n_def using not_less_Least by blast
  have bound: "n = 0 \<or> 0 + int n < 5"
    using small by simp
  have "succeeded (fst (getCredentials context clusterName 5 w))"
    by (simp add: getCredentials_def loop_fetched [OF before here bound])
  moreover have "1 \<le> Suc n \<and> Suc n \<le> 5 \<and> fetched (attempt context clusterName w (Suc n))"
    using small here by (simp add: attempt_def)
  ultimately show ?thesis by blast
next
  case False
  then have none: "\<forall>j\<le>4. \<not> fetched (exec (shell context) (invocations w + j) (getCredentials_cmd clusterName))"
    by (simp add: less_Suc_eq_le [symmetric] numeral_eq_Suc)
  have "\<not> succeeded (fst (getCredentials context clusterName 5 w))"
    using loop_exhausted [OF none, of 5 0] by (simp add: getCredentials_def)
  moreover have "\<not> fetched (attempt context clusterName w k)" if "1 \<le> k" "k \<le> 5" for k
  proof -
    from that have "k - 1 < 5" by simp
    with False show ?thesis by (auto simp: attempt_def)
  qed
  ultimately show ?thesis by blast
qed

text \<open>
  C1. \<open>getCredentials\<close> with \<open>maxAttempts = 5\<close>: when attempt \<open>k \<le> 5\<close> is the first whose
  reply has exit code 0 and empty standard error, the call returns success after the
  events of exactly \<open>k\<close> shell invocations and \<open>k - 1\<close> pauses of 15 seconds; when all five
  attempts fail it returns failure after exactly five invocations and four pauses, with
  the standard error of the fifth reply, or the text "Unable to invoke gcloud CLI" when
  that reply is absent. The two cases are all there is: the loop ends by success or by
  exhausting its attempts.
\<close>

theorem getCredentials_bounded_retry:
  assumes "1 \<le> k" and "k \<le> 5"
      and "\<forall>j. 1 \<le> j \<and> j < k \<longrightarrow> \<not> fetched (attempt context clusterName w j)"
  shows "(fetched (attempt context clusterName w k) \<longrightarrow>
            getCredentials context clusterName 5 w =
              (\<lparr>succeeded = True, result = None, error = None\<rparr>,
               w @ retry_events (getCredentials_cmd clusterName) k))
       \<and> (\<not> fetched (attempt context clusterName w k) \<and> k = 5 \<longrightarrow>
            getCredentials context clusterName 5 w =
              (\<lparr>succeeded = False, result = None,
                 error = Some (case attempt context clusterName w 5 of
                                 Some r \<Rightarrow> stderr r
                               | None \<Rightarrow> ''Unable to invoke gcloud CLI'')\<rparr>,
               w @ retry_events (getCredentials_cmd clusterName) 5))
       \<and> invocations (w @ retry_events (getCredentials_cmd clusterName) k) = invocations w + k
       \<and> pauses (w @ retry_events (getCredentials_cmd clusterName) k)
           = pauses w @ replicate (k - 1) 15000"
proof -
  let ?cmd = "getCredentials_cmd clusterName"
  obtain n where k: "k = Suc n"
    using assms(1) by (cases k) auto
  have before: "\<forall>j<n. \<not> fetched (exec (shell context) (invocations w + j) ?cmd)"
  proof (intro allI impI)
    fix j assume "j < n"
    then have "1 \<le> Suc j \<and> Suc j < k" by (simp add: k)
    then have "\<not> fetched (attempt context clusterName w (Suc j))"
      using assms(3) by blast
    then show "\<not> fetched (exec (shell context) (invocations w + j) ?cmd)"
      by (simp add: attempt_def)
  qed
  have last: "attempt context clusterName w k = exec (shell context) (invocations w + n) ?cmd"
    by (simp add: attempt_def k)
  have bound: "n = 0 \<or> 0 + int n < 5"
    using assms(2) k by simp
  have good: "getCredentials context clusterName 5 w =
                (\<lparr>succeeded = True, result = None, error = None\<rparr>, w @ retry_events ?cmd k)"
    if "fetched (attempt context clusterName w k)"
    using loop_fetched [OF before _ bound] that [unfolded last]
    by (simp add: getCredentials_def retry_events_def k)
  have bad: "getCredentials context clusterName 5 w =
               (\<lparr>succeeded = False, result = None,
                  error = Some (case attempt context clusterName w 5 of
                                  Some r \<Rightarrow> stderr r
                                | None \<Rightarrow> ''Unable to invoke gcloud CLI'')\<rparr>,
                w @ retry_events ?cmd 5)"
    if "\<not> fetched (attempt context clusterName w k)" and "k = 5"
  proof -
    have n4: "n = 4" using that(2) k by simp
    have all: "\<forall>j\<le>n. \<not> fetched (exec (shell context) (invocations w + j) ?cmd)"
      using before that(1) [unfolded last] by (auto simp: le_less)
    have last5: "attempt context clusterName w 5 = exec (shell context) (invocations w + n) ?cmd"
      using last that(2) by simp
    show ?thesis
      using loop_exhausted [OF all, of 5 0]
      by (simp add: getCredentials_def retry_events_def n4 last5)
  qed
  have count: "invocations (w @ retry_events ?cmd k) = invocations w + k"
    by (simp add: retry_events_def invocations_append invocations_round k)
       (simp add: invocations_def)
  have sleeps: "pauses (w @ retry_events ?cmd k) = pauses w @ replicate (k - 1) 15000"
    by (simp add: retry_events_def pauses_append pauses_round k)
       (simp add: pauses_def)
  from good bad count sleeps show ?thesis by blast
qed

theorem getCredentials_bounded_retry_witness:
  "getCredentials flaky_context ''demo'' 5 [] =
     (\<lparr>succeeded = True, result = None, error = None\<rparr>,
      [Exec ''gcloud container clusters get-credentials demo'', Sleep 15000,
       Exec ''gcloud container clusters get-credentials demo'', Sleep 15000,
       Exec ''gcloud container clusters get-credentials demo'', Sleep 15000,
       Exec ''gcloud container clusters get-credentials demo'', Sleep 15000,
       Exec ''gcloud container clusters get-credentials demo''])
   \<and> getCredentials down_context ''demo'' 5 [] =
     (\<lparr>succeeded = False, result = None, error = Some ''ERROR: not authorised''\<rparr>,
      [Exec ''gcloud container clusters get-credentials demo'', Sleep 15000,
       Exec ''gcloud container clusters get-credentials demo'', Sleep 15000,
       Exec ''gcloud container clusters get-credentials demo'', Sleep 15000,
       Exec ''gcloud container clusters get-credentials demo'', Sleep 15000,
       Exec ''gcloud container clusters get-credentials demo''])"
proof -
  have five: "(1::nat) \<le> 5" "(5::nat) \<le> 5" by simp_all
  have flaky: "\<forall>j. 1 \<le> j \<and> j < 5 \<longrightarrow> \<not> fetched (attempt flaky_context ''demo'' [] j)"
    by (auto simp: attempt_def flaky_context_def fetched_def invocations_def)
  have down: "\<forall>j. 1 \<le> j \<and> j < 5 \<longrightarrow> \<not> fetched (attempt down_context ''demo'' [] j)"
    by (simp add: attempt_def down_context_def fetched_def)
  have r5: "replicate 4 x = [x, x, x, x]" for x :: "event list"
    by (simp add: numeral_eq_Suc)
  show ?thesis
    using getCredentials_bounded_retry [OF five flaky]
          getCredentials_bounded_retry [OF five down]
    by (simp add: attempt_def flaky_context_def down_context_def fetched_def invocations_def
          retry_events_def getCredentials_cmd_def r5)
qed

section \<open>Configuring and awaiting a cluster\<close>

text \<open>
  C7. \<open>configureCluster\<close> runs the credential fetch with \<open>maxAttempts = 5\<close> (its events are
  those of that fetch) and returns an ActionResult whose \<open>succeeded\<close> flag is the flag of
  the fetch and whose ConfigureResult carries the given cluster type, \<open>gotCredentials\<close>
  equal to that flag and \<open>credentialsError\<close> equal to the error of the fetch. The flag
  is set exactly when one of the first five attempts is answered with exit code 0 and
  empty standard error.
\<close>

theorem configureCluster_mirrors_credentials:
  "configureCluster context kind clusterName w =
     (\<lparr>actionDescription = ''configuring Kubernetes'',
        actionResult =
          \<lparr>succeeded = succeeded (fst (getCredentials context clusterName 5 w)),
           result = Some \<lparr>clusterType = kind,
                          gotCli = None, cliInstallFile = None, cliOnDefaultPath = None,
                          cliError = None,
                          gotCredentials = succeeded (fst (getCredentials context clusterName 5 w)),
                          credentialsError = error (fst (getCredentials context clusterName 5 w))\<rparr>,
           error = Some []\<rparr>\<rparr>,
      snd (getCredentials context clusterName 5 w))
   \<and> (succeeded (actionResult (fst (configureCluster context kind clusterName w)))
        \<longleftrightarrow> (\<exists>k. 1 \<le> k \<and> k \<le> 5 \<and> fetched (attempt context clusterName w k)))"
proof -
  have shape: "configureCluster context kind clusterName w =
     (\<lparr>actionDescription = ''configuring Kubernetes'',
        actionResult =
          \<lparr>succeeded = succeeded (fst (getCredentials context clusterName 5 w)),
           result = Some \<lparr>clusterType = kind,
                          gotCli = None, cliInstallFile = None, cliOnDefaultPath = None,
                          cliError = None,
                          gotCredentials = succeeded (fst (getCredentials context clusterName 5 w)),
                          credentialsError = error (fst (getCredentials context clusterName 5 w))\<rparr>,
           error = Some []\<rparr>\<rparr>,
      snd (getCredentials context clusterName 5 w))"
    by (simp add: configureCluster_def Let_def split: prod.splits)
  show ?thesis
    by (simp add: shape getCredentials_succeeded_iff)
qed

text \<open>
  C10. The envelope of \<open>configureCluster\<close> always has the empty array as its \<open>error\<close>
  field, whatever the credential fetch did; the failure text of the fetch is carried by
  \<open>credentialsError\<close> inside the ConfigureResult only.
\<close>

theorem configureCluster_envelope_error_empty:
  "error (actionResult (fst (configureCluster context kind clusterName w))) = Some []
   \<and> map_option credentialsError (result (actionResult (fst (configureCluster context kind clusterName w))))
       = Some (error (fst (getCredentials context clusterName 5 w)))"
  by (simp add: configureCluster_def Let_def split: prod.splits)

text \<open>The same on the shell that fails every call.\<close>

lemma configureCluster_failure_example:
  "succeeded (actionResult (fst (configureCluster down_context ''gke'' ''demo'' []))) = False
   \<and> error (actionResult (fst (configureCluster down_context ''gke'' ''demo'' []))) = Some []
   \<and> map_option credentialsError
        (result (actionResult (fst (configureCluster down_context ''gke'' ''demo'' []))))
       = Some (Some ''ERROR: not authorised'')"
proof -
  have down: "\<forall>j\<le>4. \<not> fetched (exec (shell down_context) (invocations [] + j) (getCredentials_cmd ''demo''))"
    by (simp add: down_context_def fetched_def)
  have "fst (getCredentials down_context ''demo'' 5 []) =
          \<lparr>succeeded = False, result = None, error = Some ''ERROR: not authorised''\<rparr>"
    using loop_exhausted [OF down, of 5 0]
    by (simp add: getCredentials_def down_context_def)
  then show ?thesis
    by (cases "getCredentials down_context ''demo'' 5 []")
       (simp add: configureCluster_def Let_def)
qed

text \<open>
  C9. \<open>waitForCluster\<close> issues a single pause of 300000 milliseconds and no shell
  invocation, and returns success with \<open>stillWaiting\<close> false.
\<close>

theorem waitForCluster_fixed_pause:
  "waitForCluster context clusterName w =
     (\<lparr>succeeded = True, result = Some \<lparr>stillWaiting = Some False\<rparr>, error = None\<rparr>,
      w @ [Sleep 300000])
   \<and> invocations (snd (waitForCluster context clusterName w)) = invocations w
   \<and> pauses (snd (waitForCluster context clusterName w)) = pauses w @ [300000]"
  by (simp add: waitForCluster_def wait_def invocations_def pauses_def)

section \<open>Setting the project, then acting\<close>

lemma setProjectAsync_events:
  "snd (setProjectAsync context project w) = w @ [Exec (setProject_cmd project)]"
  by (simp add: setProjectAsync_def shell_exec_def setProject_cmd_def)

lemma setProjectAsync_value:
  "fst (setProjectAsync context project w) =
     fromShellExitCodeAndStandardError
       (exec (shell context) (invocations w) (setProject_cmd project))
       ''Unable to set gcloud CLI project''"
  by (simp add: setProjectAsync_def shell_exec_def setProject_cmd_def)

text \<open>
  C3. When the shell replies to the set-project command, \<open>setProjectAsync\<close> succeeds
  exactly when the exit code is 0 and standard error is empty, and fails whenever the
  exit code differs from 0 or standard error is not empty (exit code 0 with a warning on
  standard error included).
\<close>

theorem setProjectAsync_succeeds_iff:
  assumes "exec (shell context) (invocations w) (setProject_cmd project) = Some r"
  shows "(succeeded (fst (setProjectAsync context project w)) = (code r = 0 \<and> stderr r = []))
       \<and> (failed (fst (setProjectAsync context project w)) = (code r \<noteq> 0 \<or> stderr r \<noteq> []))"
  using assms
  by (simp add: setProjectAsync_value fromShellExitCodeAndStandardError_def failed_def)

theorem setProjectAsync_succeeds_iff_witness:
  "exec (shell warning_context) (invocations []) (setProject_cmd ''demo-project'')
     = Some \<lparr>code = 0, stdout = [], stderr = ''WARNING: property validation skipped''\<rparr>
   \<and> failed (fst (setProjectAsync warning_context ''demo-project'' []))
   \<and> \<not> succeeded (fst (setProjectAsync warning_context ''demo-project'' []))"
proof -
  have reply: "exec (shell warning_context) (invocations []) (setProject_cmd ''demo-project'')
     = Some \<lparr>code = 0, stdout = [], stderr = ''WARNING: property validation skipped''\<rparr>"
    by (simp add: warning_context_def)
  show ?thesis
    using setProjectAsync_succeeds_iff [OF reply] reply by simp
qed

text \<open>
  C2. When \<open>setProjectAsync\<close> fails, \<open>getClusterList\<close> and \<open>createCluster\<close> (for options
  naming that project) return the description "logging into project" with the error of
  the failed login, and the only event they add is the set-project invocation: the
  command that lists or creates clusters is never issued.
\<close>

theorem login_failure_short_circuits:
  assumes "failed (fst (setProjectAsync context project w))"
      and "options_project options = project"
  shows "getClusterList js context project w =
           (\<lparr>actionDescription = ''logging into project'',
              actionResult = \<lparr>succeeded = False, result = None,
                               error = error (fst (setProjectAsync context project w))\<rparr>\<rparr>,
            w @ [Exec (setProject_cmd project)])
       \<and> createCluster context options w =
           (\<lparr>actionDescription = ''logging into project'',
              actionResult = fst (setProjectAsync context project w)\<rparr>,
            w @ [Exec (setProject_cmd project)])
       \<and> invocations (w @ [Exec (setProject_cmd project)]) = invocations w + 1"
proof -
  obtain login w1 where run: "setProjectAsync context project w = (login, w1)"
    by (cases "setProjectAsync context project w")
  have w1: "w1 = w @ [Exec (setProject_cmd project)]"
    using setProjectAsync_events [where w = w and project = project] run
    by (metis snd_conv)
  have bad: "failed login" "\<not> succeeded login"
    using assms(1) run by (simp_all add: failed_def)
  have list: "getClusterList js context project w =
           (\<lparr>actionDescription = ''logging into project'',
              actionResult = \<lparr>succeeded = False, result = None, error = error login\<rparr>\<rparr>, w1)"
    by (simp add: getClusterList_def run bad)
  have create: "createCluster context options w =
           (\<lparr>actionDescription = ''logging into project'', actionResult = login\<rparr>, w1)"
    by (simp add: createCluster_def assms(2) run bad)
  have count: "invocations (w @ [Exec (setProject_cmd project)]) = invocations w + 1"
    by (simp add: invocations_def)
  from list create count show ?thesis
    by (simp add: run w1)
qed

theorem login_failure_short_circuits_witness:
  "failed (fst (setProjectAsync down_context ''demo-project'' []))
   \<and> actionDescription (fst (getClusterList demo_runtime down_context ''demo-project'' []))
       = ''logging into project''
   \<and> error (actionResult (fst (getClusterList demo_runtime down_context ''demo-project'' [])))
       = error (fst (setProjectAsync down_context ''demo-project'' []))
   \<and> snd (getClusterList demo_runtime down_context ''demo-project'' [])
       = [Exec (setProject_cmd ''demo-project'')]
   \<and> fst (createCluster down_context demo_options [])
       = \<lparr>actionDescription = ''logging into project'',
          actionResult = fst (setProjectAsync down_context ''demo-project'' [])\<rparr>
   \<and> snd (createCluster down_context demo_options [])
       = [Exec (setProject_cmd ''demo-project'')]"
proof -
  have bad: "failed (fst (setProjectAsync down_context ''demo-project'' []))"
    by (simp add: setProjectAsync_value fromShellExitCodeAndStandardError_def failed_def
          down_context_def)
  have proj: "options_project demo_options = ''demo-project''"
    by (simp add: demo_options_def)
  show ?thesis
    using login_failure_short_circuits [OF bad proj, of demo_runtime] bad by simp
qed


lemma execCreateClusterCmd_events:
  "snd (execCreateClusterCmd context options w) = w @ [Exec (createCluster_cmd options)]"
  by (simp add: execCreateClusterCmd_def shell_exec_def createCluster_cmd_def Let_def)

lemma execCreateClusterCmd_value:
  "fst (execCreateClusterCmd context options w) =
     fromShellExitCodeOnly
       (exec (shell context) (invocations w) (createCluster_cmd options))
       ''Unable to call Gcloud CLI to create cluster''"
  by (simp add: execCreateClusterCmd_def shell_exec_def createCluster_cmd_def Let_def)

lemma createCluster_after_login:
  assumes "succeeded (fst (setProjectAsync context (options_project options) w))"
  shows "createCluster context options w =
           (\<lparr>actionDescription = ''creating cluster'',
              actionResult = fst (execCreateClusterCmd context options
                                    (w @ [Exec (setProject_cmd (options_project options))]))\<rparr>,
            w @ [Exec (setProject_cmd (options_project options)),
                 Exec (createCluster_cmd options)])"
proof -
  obtain login w1 where run: "setProjectAsync context (options_project options) w = (login, w1)"
    by (cases "setProjectAsync context (options_project options) w")
  have w1: "w1 = w @ [Exec (setProject_cmd (options_project options))]"
    using setProjectAsync_events [where w = w and project = "options_project options"] run
    by (metis snd_conv)
  have ok: "succeeded login"
    using assms run by simp
  obtain created w2 where make: "execCreateClusterCmd context options w1 = (created, w2)"
    by (cases "execCreateClusterCmd context options w1")
  have w2: "w2 = w1 @ [Exec (createCluster_cmd options)]"
    using execCreateClusterCmd_events [where w = w1 and options = options] make
    by (metis snd_conv)
  show ?thesis
    using make by (simp add: createCluster_def run ok w1 w2)
qed

text \<open>
  C8. When \<open>setProjectAsync\<close> succeeds, \<open>createCluster\<close> issues the create command
  next, describes the action as "creating cluster", and succeeds exactly when that command
  has a reply with exit code 0; the standard error of the reply plays no part.
\<close>

theorem createCluster_exit_code_alone:
  assumes "succeeded (fst (setProjectAsync context (options_project options) w))"
  shows "actionDescription (fst (createCluster context options w)) = ''creating cluster''
       \<and> succeeded (actionResult (fst (createCluster context options w)))
           = (case exec (shell context) (Suc (invocations w)) (createCluster_cmd options) of
                None \<Rightarrow> False
              | Some r \<Rightarrow> code r = 0)
       \<and> snd (createCluster context options w)
           = w @ [Exec (setProject_cmd (options_project options)),
                  Exec (createCluster_cmd options)]"
proof -
  have inv: "invocations (w @ [Exec (setProject_cmd (options_project options))])
               = Suc (invocations w)"
    by (simp add: invocations_def)
  show ?thesis
    by (simp add: createCluster_after_login [OF assms] execCreateClusterCmd_value inv
          fromShellExitCodeOnly_def split: option.splits)
qed

theorem createCluster_exit_code_alone_witness:
  "succeeded (fst (setProjectAsync chatty_context (options_project demo_options) []))
   \<and> exec (shell chatty_context) (Suc (invocations [])) (createCluster_cmd demo_options)
       = Some \<lparr>code = 0, stdout = [], stderr = ''WARNING: cluster creation is asynchronous''\<rparr>
   \<and> actionDescription (fst (createCluster chatty_context demo_options [])) = ''creating cluster''
   \<and> succeeded (actionResult (fst (createCluster chatty_context demo_options [])))"
proof -
  have login: "succeeded (fst (setProjectAsync chatty_context (options_project demo_options) []))"
    by (simp add: setProjectAsync_value fromShellExitCodeAndStandardError_def chatty_context_def
          invocations_def)
  have reply: "exec (shell chatty_context) (Suc (invocations [])) (createCluster_cmd demo_options)
       = Some \<lparr>code = 0, stdout = [], stderr = ''WARNING: cluster creation is asynchronous''\<rparr>"
    by (simp add: chatty_context_def)
  show ?thesis
    using createCluster_exit_code_alone [OF login] login reply by simp
qed

section \<open>Locations\<close>

lemma locationDisplayNamesEx_production:
  "locationDisplayNamesEx production [] locationInfo =
     map (\<lambda>n. \<lparr>displayName = locations locationInfo n, isPreview = False\<rparr>) production"
  by (simp add: locationDisplayNamesEx_def locationDisplayNames_def)

lemma listGkeLocations_succeeded:
  assumes "succeeded (fst (listLocations js context w))"
      and "result (fst (listLocations js context w)) = Some locs"
  shows "listGkeLocations js context w =
           (Inr \<lparr>succeeded = True,
                 result = Some (map (\<lambda>n. \<lparr>displayName = locations locs n, isPreview = False\<rparr>)
                                  productionRegions),
                 error = None\<rparr>,
            snd (listLocations js context w))"
  using assms
  by (cases "listLocations js context w")
     (simp add: listGkeLocations_def failed_def locationDisplayNamesEx_production)

lemma listGkeLocations_failed:
  assumes "failed (fst (listLocations js context w))"
  shows "listGkeLocations js context w =
           (Inr \<lparr>succeeded = False, result = None,
                 error = error (fst (listLocations js context w))\<rparr>,
            snd (listLocations js context w))"
  using assms
  by (cases "listLocations js context w") (simp add: listGkeLocations_def)

lemma listLocations_events:
  "snd (listLocations js context w) =
     w @ [Exec (''az account list-locations --query ''
                  @ (if isUnix (shell context)
                     then [CHR 0x27] @ ''[].{name:name,displayName:displayName}'' @ [CHR 0x27]
                     else ''[].{name:name,displayName:displayName}'')
                  @ '' -ojson'')]"
  by (simp add: listLocations_def shell_exec_def Let_def)

lemma listLocations_demo:
  "fst (listLocations demo_runtime locations_context []) =
     \<lparr>succeeded = True,
      result = Some \<lparr>locations = [''eastus'' \<mapsto> JString ''East US'']\<rparr>,
      error = None\<rparr>"
  by (simp add: listLocations_def shell_exec_def Let_def locations_context_def demo_runtime_def
        fromShellJson_def listLocations_processor_def PropertyKey_def Dictionary_of_def)

lemma listLocations_down:
  "fst (listLocations demo_runtime down_context []) =
     \<lparr>succeeded = False, result = None,
      error = Some [''Unable to list Google regions'', ''ERROR: not authorised'']\<rparr>"
  by (simp add: listLocations_def shell_exec_def Let_def down_context_def fromShellJson_def)

text \<open>
  C6. When the locations have been fetched, \<open>listGkeLocations\<close> succeeds with one
  ServiceLocation per hardwired production region, in the order of the list and none left
  out (19 of them), each with \<open>isPreview\<close> false; a region without entry in the fetched
  mapping gets the display name \<open>undefined\<close>.
\<close>

theorem listGkeLocations_keeps_unknown_regions:
  assumes "succeeded (fst (listLocations js context w))"
      and "result (fst (listLocations js context w)) = Some locs"
  shows "fst (listGkeLocations js context w) =
           Inr \<lparr>succeeded = True,
                result = Some (map (\<lambda>n. \<lparr>displayName = locations locs n, isPreview = False\<rparr>)
                                 productionRegions),
                error = None\<rparr>
       \<and> length (map (\<lambda>n. \<lparr>displayName = locations locs n, isPreview = False\<rparr>)
                   productionRegions) = 19
       \<and> (\<forall>i<19. locations locs (productionRegions ! i) = None \<longrightarrow>
              map (\<lambda>n. \<lparr>displayName = locations locs n, isPreview = False\<rparr>) productionRegions ! i
                = \<lparr>displayName = None, isPreview = False\<rparr>)"
proof -
  have len: "length productionRegions = 19"
    by (simp add: productionRegions_def)
  show ?thesis
    by (simp add: listGkeLocations_succeeded [OF assms] len)
qed

theorem listGkeLocations_keeps_unknown_regions_witness:
  "succeeded (fst (listLocations demo_runtime locations_context []))
   \<and> result (fst (listLocations demo_runtime locations_context []))
       = Some \<lparr>locations = [''eastus'' \<mapsto> JString ''East US'']\<rparr>
   \<and> [''eastus'' \<mapsto> JString ''East US''] (productionRegions ! 0) = None
   \<and> (\<exists>ls. fst (listGkeLocations demo_runtime locations_context [])
              = Inr \<lparr>succeeded = True, result = Some ls, error = None\<rparr>
           \<and> length ls = 19
           \<and> ls ! 0 = \<lparr>displayName = None, isPreview = False\<rparr>)"
proof -
  have ok: "succeeded (fst (listLocations demo_runtime locations_context []))"
    by (simp add: listLocations_demo)
  have got: "result (fst (listLocations demo_runtime locations_context []))
               = Some \<lparr>locations = [''eastus'' \<mapsto> JString ''East US'']\<rparr>"
    by (simp add: listLocations_demo)
  have missing: "[''eastus'' \<mapsto> JString ''East US''] (productionRegions ! 0) = None"
    by (simp add: productionRegions_def)
  show ?thesis
    using listGkeLocations_keeps_unknown_regions [OF ok got] ok got missing
    by simp
qed

text \<open>
  C4, as amended. When the fetched region mapping is exactly \<open>eastus \<mapsto> East US\<close>,
  \<open>listGkeLocations\<close> succeeds with 19 ServiceLocations, one per hardwired production
  region in the order of the list: the eighth, for \<open>eastus\<close>, has the display name
  "East US", the other 18 have the display name \<open>undefined\<close>, and all have \<open>isPreview\<close>
  false. When fetching the locations fails, \<open>listGkeLocations\<close> fails with the same error.
\<close>

theorem listGkeLocations_eastus_among_all_regions:
  "(succeeded (fst (listLocations js context w))
      \<and> result (fst (listLocations js context w))
          = Some \<lparr>locations = [''eastus'' \<mapsto> JString ''East US'']\<rparr> \<longrightarrow>
      fst (listGkeLocations js context w) =
        Inr \<lparr>succeeded = True,
             result = Some (replicate 7 \<lparr>displayName = None, isPreview = False\<rparr>
                            @ [\<lparr>displayName = Some (JString ''East US''), isPreview = False\<rparr>]
                            @ replicate 11 \<lparr>displayName = None, isPreview = False\<rparr>),
             error = None\<rparr>)
   \<and> (failed (fst (listLocations js context w)) \<longrightarrow>
      fst (listGkeLocations js context w) =
        Inr \<lparr>succeeded = False, result = None,
             error = error (fst (listLocations js context w))\<rparr>)"
proof -
  have r7: "replicate 7 x = [x, x, x, x, x, x, x]" for x :: ServiceLocation
    by (simp add: numeral_eq_Suc)
  have r11: "replicate 11 x = [x, x, x, x, x, x, x, x, x, x, x]" for x :: ServiceLocation
    by (simp add: numeral_eq_Suc)
  have one: "fst (listGkeLocations js context w) =
        Inr \<lparr>succeeded = True,
             result = Some (replicate 7 \<lparr>displayName = None, isPreview = False\<rparr>
                            @ [\<lparr>displayName = Some (JString ''East US''), isPreview = False\<rparr>]
                            @ replicate 11 \<lparr>displayName = None, isPreview = False\<rparr>),
             error = None\<rparr>"
    if ok: "succeeded (fst (listLocations js context w))"
      and got: "result (fst (listLocations js context w))
                  = Some \<lparr>locations = [''eastus'' \<mapsto> JString ''East US'']\<rparr>"
    by (simp add: listGkeLocations_succeeded [OF ok got] productionRegions_def r7 r11)
  have two: "fst (listGkeLocations js context w) =
        Inr \<lparr>succeeded = False, result = None,
             error = error (fst (listLocations js context w))\<rparr>"
    if "failed (fst (listLocations js context w))"
    by (simp add: listGkeLocations_failed [OF that])
  from one two show ?thesis by blast
qed

theorem listGkeLocations_eastus_among_all_regions_witness:
  "fst (listGkeLocations demo_runtime locations_context []) =
        Inr \<lparr>succeeded = True,
             result = Some (replicate 7 \<lparr>displayName = None, isPreview = False\<rparr>
                            @ [\<lparr>displayName = Some (JString ''East US''), isPreview = False\<rparr>]
                            @ replicate 11 \<lparr>displayName = None, isPreview = False\<rparr>),
             error = None\<rparr>
   \<and> fst (listGkeLocations demo_runtime down_context []) =
        Inr \<lparr>succeeded = False, result = None,
             error = Some [''Unable to list Google regions'', ''ERROR: not authorised'']\<rparr>"
  using listGkeLocations_eastus_among_all_regions [of demo_runtime locations_context "[]"]
        listGkeLocations_eastus_among_all_regions [of demo_runtime down_context "[]"]
  by (simp add: listLocations_demo listLocations_down failed_def)


text \<open>
  The result for that mapping is not the single ServiceLocation for \<open>eastus\<close>.
\<close>

theorem listGkeLocations_single_location_counterexample:
  "succeeded (fst (listLocations demo_runtime locations_context []))
   \<and> result (fst (listLocations demo_runtime locations_context []))
       = Some \<lparr>locations = [''eastus'' \<mapsto> JString ''East US'']\<rparr>
   \<and> fst (listGkeLocations demo_runtime locations_context [])
       \<noteq> Inr \<lparr>succeeded = True,
               result = Some [\<lparr>displayName = Some (JString ''East US''), isPreview = False\<rparr>],
               error = None\<rparr>"
proof -
  have ok: "succeeded (fst (listLocations demo_runtime locations_context []))"
    by (simp add: listLocations_demo)
  have got: "result (fst (listLocations demo_runtime locations_context []))
               = Some \<lparr>locations = [''eastus'' \<mapsto> JString ''East US'']\<rparr>"
    by (simp add: listLocations_demo)
  have "fst (listGkeLocations demo_runtime locations_context [])
       \<noteq> Inr \<lparr>succeeded = True,
               result = Some [\<lparr>displayName = Some (JString ''East US''), isPreview = False\<rparr>],
               error = None\<rparr>"
    by (simp add: listGkeLocations_succeeded [OF ok got] productionRegions_def)
  with ok got show ?thesis by blast
qed

section \<open>VM sizes\<close>

lemma startsWith_iff: "startsWith s p \<longleftrightarrow> (\<exists>t. s = p @ t)"
  unfolding startsWith_def
  by (metis append_eq_conv_conj append_take_drop_id)

lemma names_of_objects:
  assumes "list_all2 (\<lambda>obj n. \<exists>props. obj = JObject props \<and> map_of props ''name'' = Some (JString n))
             objs names"
  shows "those (map (\<lambda>r. getProperty r ''name'') objs) = Some (map (\<lambda>n. Some (JString n)) names)"
  using assms by (induction rule: list_all2_induct) auto

lemma those_asString:
  "those (map (asString \<circ> (\<lambda>n. Some (JString n))) names) = Some names"
  by (induction names) simp_all

lemma listVMSizes_processor_names:
  assumes "list_all2 (\<lambda>obj n. \<exists>props. obj = JObject props \<and> map_of props ''name'' = Some (JString n))
             objs names"
  shows "listVMSizes_processor (JArray objs)
           = Some (filter (\<lambda>name. \<not> startsWith name ''Basic_'') names)"
  by (simp add: listVMSizes_processor_def names_of_objects [OF assms] those_asString)

lemma listVMSizes_processor_no_basic:
  assumes "listVMSizes_processor response = Some ns"
  shows "\<forall>n\<in>set ns. \<not> startsWith n ''Basic_''"
  using assms
  by (auto simp: listVMSizes_processor_def split: json.splits option.splits)

lemma fromShellJson_result:
  assumes "result (fromShellJson js sr msg processor) = Some v"
  shows "\<exists>raw. processor raw = Some v"
  using assms
  by (auto simp: fromShellJson_def split: option.splits if_splits)

lemma listVMSizes_value:
  "listVMSizes js context location w =
     (fromShellJson js (exec (shell context) (invocations w) (listVMSizes_cmd location))
        ''Unable to list VM sizes'' listVMSizes_processor,
      w @ [Exec (listVMSizes_cmd location)])"
  by (simp add: listVMSizes_def shell_exec_def listVMSizes_cmd_def)

text \<open>
  C5. When the shell replies to the list-sizes command with exit code 0 and an output that
  parses as an array of objects with string \<open>name\<close> fields, \<open>listVMSizes\<close> succeeds with
  those names in the order of the array, without the ones that start with "Basic_"; and no
  name that \<open>listVMSizes\<close> ever returns starts with "Basic_".
\<close>

theorem listVMSizes_names_without_basic:
  assumes "exec (shell context) (invocations w) (listVMSizes_cmd location) = Some r"
      and "code r = 0"
      and "JSON_parse js (stdout r) = Some (JArray objs)"
      and "list_all2 (\<lambda>obj n. \<exists>props. obj = JObject props \<and> map_of props ''name'' = Some (JString n))
             objs names"
  shows "listVMSizes js context location w =
           (\<lparr>succeeded = True,
              result = Some (filter (\<lambda>n. \<not> startsWith n ''Basic_'') names),
              error = None\<rparr>,
            w @ [Exec (listVMSizes_cmd location)])
       \<and> (\<forall>ns. result (fst (listVMSizes js context location w)) = Some ns \<longrightarrow>
              (\<forall>n\<in>set ns. \<not> (\<exists>t. n = ''Basic_'' @ t)))"
proof -
  have returned: "listVMSizes js context location w =
           (\<lparr>succeeded = True,
              result = Some (filter (\<lambda>n. \<not> startsWith n ''Basic_'') names),
              error = None\<rparr>,
            w @ [Exec (listVMSizes_cmd location)])"
    by (simp add: listVMSizes_value assms(1,2,3) fromShellJson_def
          listVMSizes_processor_names [OF assms(4)])
  have "\<forall>n\<in>set ns. \<not> (\<exists>t. n = ''Basic_'' @ t)"
    if "result (fst (listVMSizes js context location w)) = Some ns" for ns
  proof -
    from that obtain raw where "listVMSizes_processor raw = Some ns"
      unfolding listVMSizes_value fst_conv by (blast dest: fromShellJson_result)
    then show ?thesis
      using listVMSizes_processor_no_basic startsWith_iff by blast
  qed
  with returned show ?thesis by blast
qed

theorem listVMSizes_names_without_basic_witness:
  "listVMSizes demo_runtime sizes_context ''eastus'' [] =
     (\<lparr>succeeded = True, result = Some [''Standard_D2_v2'', ''Standard_A1''], error = None\<rparr>,
      [Exec (listVMSizes_cmd ''eastus'')])"
proof -
  have reply: "exec (shell sizes_context) (invocations []) (listVMSizes_cmd ''eastus'')
                 = Some \<lparr>code = 0, stdout = sizes_json, stderr = []\<rparr>"
    by (simp add: sizes_context_def)
  have zero: "code \<lparr>code = 0, stdout = sizes_json, stderr = []\<rparr> = 0"
    by simp
  have parsed: "JSON_parse demo_runtime (stdout \<lparr>code = 0, stdout = sizes_json, stderr = []\<rparr>)
                  = Some (JArray [JObject [(''name'', JString ''Standard_D2_v2'')],
                                  JObject [(''name'', JString ''Basic_A0'')],
                                  JObject [(''name'', JString ''Standard_A1'')]])"
    by (simp add: demo_runtime_def sizes_json_def locations_json_def)
  have named: "list_all2 (\<lambda>obj n. \<exists>props. obj = JObject props \<and> map_of props ''name'' = Some (JString n))
                 [JObject [(''name'', JString ''Standard_D2_v2'')],
                  JObject [(''name'', JString ''Basic_A0'')],
                  JObject [(''name'', JString ''Standard_A1'')]]
                 [''Standard_D2_v2'', ''Basic_A0'', ''Standard_A1'']"
    by simp
  show ?thesis
    using listVMSizes_names_without_basic [OF reply zero parsed named]
    by (simp add: startsWith_def)
qed

end
